theory Spec2Isabelle
  imports Complex_Main "HOL-Library.Word"
begin

section \<open>Custodial wallet vault and signed-transfer pipeline\<close>

text \<open>
  A shallow embedding of the wallet service (\<open>services/wallet-service.ts\<close>), the tool
  service (\<open>services/tool-service.ts\<close>), the \<open>sendSolToUser\<close> tool registered on the MCP
  server, and the transaction table of the database layer with its status route
  (\<open>routes/transaction.ts\<close>).
  JavaScript strings are modelled by their UTF-8 bytes (\<open>string\<close>), Node buffers by lists
  of bytes, JavaScript numbers by \<open>real\<close> (IEEE rounding, NaN and the infinities are outside
  the model), and every \<open>throw\<close> by a value of type \<open>error\<close> on the left of a sum.
\<close>

subsection \<open>Thrown values\<close>

type_synonym bytes = "8 word list"

datatype error =
    NotInitialized
  | AlreadyLinked string string
  | WalletIdNotFound nat
  | WalletKeyNotFound string
  | CannotSign string
  | SqliteConstraint string
  | SqliteFailure string
  | InvalidKeyLength
  | InvalidIV
  | BadDecrypt
  | TypeError string
  | RangeError string
  | ConnectionNotInitialized
  | InvalidPublicKey string
  | AmountNotPositive
  | NoTokenAccount string
  | RecipientNoTokenAccount string
  | FailedToSendSol error
  | FailedToSendToken error
  | FailedTo string error
  | PlainError string
  | RpcFailure string
  | LibFailure string
  | ThrownString string
  | ThrownValue



subsection \<open>Hexadecimal strings and the envelope separator\<close>

definition hexdigit :: "nat \<Rightarrow> char" where
  "hexdigit n = ''0123456789abcdef'' ! (n mod 16)"

text \<open>\<open>buf.toString('hex')\<close>: two lower-case digits per byte.\<close>

definition toHex :: "bytes \<Rightarrow> string" where
  "toHex bs = concat (map (\<lambda>b. [hexdigit (unat b div 16), hexdigit (unat b mod 16)]) bs)"

definition hexval :: "char \<Rightarrow> nat option" where
  "hexval c =
     (let n = (of_char c :: nat) in
      if 48 \<le> n \<and> n \<le> 57 then Some (n - 48)
      else if 97 \<le> n \<and> n \<le> 102 then Some (n - 87)
      else if 65 \<le> n \<and> n \<le> 70 then Some (n - 55)
      else None)"

text \<open>
  \<open>Buffer.from(s, 'hex')\<close> and the \<open>'hex'\<close> input encoding of a decipher: pairs of digits
  are decoded until the first pair that is not hexadecimal; a trailing single character
  is dropped.
\<close>

fun fromHex :: "string \<Rightarrow> bytes" where
  "fromHex (a # b # rest) =
     (case (hexval a, hexval b) of
        (Some x, Some y) \<Rightarrow> word_of_nat (16 * x + y) # fromHex rest
      | _ \<Rightarrow> [])"
| "fromHex _ = []"

text \<open>\<open>s.split(c)\<close> for a one-character separator.\<close>

fun split :: "char \<Rightarrow> string \<Rightarrow> string list" where
  "split c [] = [[]]"
| "split c (x # xs) =
     (if x = c then [] # split c xs
      else (case split c xs of [] \<Rightarrow> [[x]] | p # ps \<Rightarrow> (x # p) # ps))"

definition utf8_encode :: "string \<Rightarrow> bytes" where
  "utf8_encode s = map (\<lambda>c. word_of_nat (of_char c)) s"

definition utf8_decode :: "bytes \<Rightarrow> string" where
  "utf8_decode bs = map (\<lambda>b. char_of (unat b)) bs"

subsection \<open>Libraries\<close>

text \<open>
  Library code that is not part of the repository is a parameter, the record \<open>libs\<close>:
  \<^item> the block cipher of Node's \<open>crypto\<close> module, \<open>aes_encrypt key iv plaintext\<close> and
    \<open>aes_decrypt key iv ciphertext\<close> (AES-256-CBC with padding; decryption throws on a
    bad padding); \<open>createCipheriv\<close> and \<open>createDecipheriv\<close> throw unless the key has 32
    bytes and the IV 16, which the model checks itself;
  \<^item> \<open>bs58\<close> and \<open>@solana/web3.js\<close>: base-58 coding, \<open>new PublicKey(s)\<close> (which throws
    on a malformed address), \<open>Keypair.fromSecretKey\<close>, \<open>SystemProgram.transfer\<close>,
    \<open>transaction.sign\<close> and \<open>transaction.serialize\<close>;
  \<^item> the rendering of a number inside a template literal, what the SQLite driver binds for
    a parameter that is not a string, and \<open>JSON.stringify\<close>.
\<close>

record keypair =
  publicKey :: string
  secretKey :: bytes

record account_meta =
  pubkey :: string
  isSigner :: bool
  isWritable :: bool

record instruction =
  programId :: string
  keys :: "account_meta list"
  data :: bytes

record transaction =
  instructions :: "instruction list"
  recentBlockhash :: "string option"
  feePayer :: "string option"
  signatures :: "(string \<times> bytes) list"

datatype jsval = JUndefined | JNull | JBool bool | JNum real | JStr string | JObject

record libs =
  aes_encrypt :: "bytes \<Rightarrow> bytes \<Rightarrow> bytes \<Rightarrow> bytes"
  aes_decrypt :: "bytes \<Rightarrow> bytes \<Rightarrow> bytes \<Rightarrow> error + bytes"
  bs58_encode :: "bytes \<Rightarrow> string"
  bs58_decode :: "string \<Rightarrow> error + bytes"
  isPublicKey :: "string \<Rightarrow> bool"
  fromSecretKey :: "bytes \<Rightarrow> error + keypair"
  systemTransfer :: "string \<Rightarrow> string \<Rightarrow> int \<Rightarrow> error + instruction"
  sign :: "keypair \<Rightarrow> transaction \<Rightarrow> error + transaction"
  serialize :: "transaction \<Rightarrow> error + bytes"
  showNum :: "real \<Rightarrow> string"
  sqlBind :: "jsval \<Rightarrow> string"
  stringify :: "jsval \<Rightarrow> string"

subsection \<open>Cipher (\<open>encryptPrivateKey\<close>, \<open>decryptPrivateKey\<close>)\<close>

definition cipherKey :: "string \<Rightarrow> bytes" where
  "cipherKey encryptionKey = utf8_encode (take 32 encryptionKey)"

text \<open>\<open>iv\<close> is the value drawn by \<open>crypto.randomBytes(16)\<close>.\<close>

definition encryptPrivateKey :: "libs \<Rightarrow> string \<Rightarrow> bytes \<Rightarrow> string \<Rightarrow> error + string" where
  "encryptPrivateKey C encryptionKey iv privateKey =
     (if length (cipherKey encryptionKey) \<noteq> 32 then Inl InvalidKeyLength
      else if length iv \<noteq> 16 then Inl InvalidIV
      else
        let encrypted = toHex (aes_encrypt C (cipherKey encryptionKey) iv (utf8_encode privateKey))
        in Inr (toHex iv @ '':'' @ encrypted))"

definition decryptPrivateKey :: "libs \<Rightarrow> string \<Rightarrow> string \<Rightarrow> error + string" where
  "decryptPrivateKey C encryptionKey encryptedPrivateKey =
     (let parts = split CHR '':'' encryptedPrivateKey;
          ivHex = hd parts;
          iv = fromHex ivHex
      in if length (cipherKey encryptionKey) \<noteq> 32 then Inl InvalidKeyLength
         else if length iv \<noteq> 16 then Inl InvalidIV
         else (case tl parts of
                 [] \<Rightarrow> Inl (TypeError ''The \"data\" argument must be of type string'')
               | encryptedHex # _ \<Rightarrow>
                   (case aes_decrypt C (cipherKey encryptionKey) iv (fromHex encryptedHex) of
                      Inl e \<Rightarrow> Inl e
                    | Inr decrypted \<Rightarrow> Inr (utf8_decode decrypted))))"

subsection \<open>Persistence: the tables of the wallet service\<close>

text \<open>
  The two tables of \<open>WALLET_SCHEMA\<close> and \<open>SOCIAL_ACCOUNT_SCHEMA\<close>. \<open>UNIQUE\<close> columns
  are enforced by the insert statements; the foreign key is not (SQLite enforces it only
  under a pragma the code never sets). Timestamps are read from the counter \<open>clock\<close>.
  Every statement the code issues can also fail as a whole (a locked or unreadable file):
  \<open>fault\<close> says for which statements it does.
\<close>

record wallet_row =
  rowid :: nat
  public_key :: string
  is_custodial :: bool
  label :: "string option"
  encrypted_private_key :: "string option"
  created_at :: nat
  updated_at :: nat

record SocialAccount =
  sid :: nat
  platform :: string
  platformId :: string
  walletId :: nat
  createdAt :: nat

datatype sql =
    SelectSocialByPlatformId string
  | SelectSocialByIdentity string string
  | SelectSocialByWallet nat
  | SelectWalletById nat
  | SelectWalletByPublicKey string
  | SelectAllWallets
  | InsertWallet string
  | InsertSocial string string
  | DeleteSocial string string

record database =
  wallets :: "wallet_row list"
  social_accounts :: "SocialAccount list"
  wallet_seq :: nat
  social_seq :: nat
  clock :: nat
  fault :: "sql \<Rightarrow> bool"

definition storage_failure :: error where
  "storage_failure = SqliteFailure ''SQLITE_IOERR: disk I/O error''"

text \<open>\<open>db.get\<close> returns the first matching row or \<open>undefined\<close>, \<open>db.all\<close> every matching row.\<close>

definition select_social_by_platform_id :: "database \<Rightarrow> string \<Rightarrow> error + SocialAccount list" where
  "select_social_by_platform_id d i =
     (if fault d (SelectSocialByPlatformId i) then Inl storage_failure
      else Inr (filter (\<lambda>a. platformId a = i) (social_accounts d)))"

definition select_social_by_identity :: "database \<Rightarrow> string \<Rightarrow> string \<Rightarrow> error + SocialAccount option" where
  "select_social_by_identity d p i =
     (if fault d (SelectSocialByIdentity p i) then Inl storage_failure
      else Inr (find (\<lambda>a. platform a = p \<and> platformId a = i) (social_accounts d)))"

definition select_social_by_wallet :: "database \<Rightarrow> nat \<Rightarrow> error + SocialAccount list" where
  "select_social_by_wallet d w =
     (if fault d (SelectSocialByWallet w) then Inl storage_failure
      else Inr (filter (\<lambda>a. walletId a = w) (social_accounts d)))"

definition select_wallet_by_id :: "database \<Rightarrow> nat \<Rightarrow> error + wallet_row option" where
  "select_wallet_by_id d w =
     (if fault d (SelectWalletById w) then Inl storage_failure
      else Inr (find (\<lambda>r. rowid r = w) (wallets d)))"

definition select_wallet_by_public_key :: "database \<Rightarrow> string \<Rightarrow> error + wallet_row option" where
  "select_wallet_by_public_key d k =
     (if fault d (SelectWalletByPublicKey k) then Inl storage_failure
      else Inr (find (\<lambda>r. public_key r = k) (wallets d)))"


text \<open>
  \<open>INTEGER PRIMARY KEY AUTOINCREMENT\<close>: one more than the largest id ever used, which is
  the sequence counter or, if larger, the largest id in the table.
\<close>

definition nextId :: "nat \<Rightarrow> nat list \<Rightarrow> nat" where
  "nextId seq ids = Suc (fold max ids seq)"


text \<open>\<open>INSERT INTO social_accounts\<close>, under \<open>UNIQUE(platform, platform_id)\<close>.\<close>

definition insert_social :: "database \<Rightarrow> string \<Rightarrow> string \<Rightarrow> nat \<Rightarrow> error + database" where
  "insert_social d p i w =
     (if fault d (InsertSocial p i) then Inl storage_failure
      else if \<exists>a \<in> set (social_accounts d). platform a = p \<and> platformId a = i
        then Inl (SqliteConstraint ''social_accounts.platform, social_accounts.platform_id'')
      else
        let n = nextId (social_seq d) (map sid (social_accounts d));
            row = \<lparr> sid = n, platform = p, platformId = i, walletId = w, createdAt = clock d \<rparr>
        in Inr (d\<lparr> social_accounts := social_accounts d @ [row], social_seq := n \<rparr>))"

text \<open>\<open>DELETE FROM social_accounts\<close>: returns \<open>changes\<close> and the new database.\<close>

definition delete_social :: "database \<Rightarrow> string \<Rightarrow> string \<Rightarrow> error + nat \<times> database" where
  "delete_social d p i =
     (if fault d (DeleteSocial p i) then Inl storage_failure
      else
        let gone = filter (\<lambda>a. platform a = p \<and> platformId a = i) (social_accounts d);
            kept = filter (\<lambda>a. \<not> (platform a = p \<and> platformId a = i)) (social_accounts d)
        in Inr (length gone, d\<lparr> social_accounts := kept \<rparr>))"

subsection \<open>Wallet service (\<open>SimpleWalletManager\<close>)\<close>

record WalletInfo =
  wid :: nat
  wPublicKey :: string
  isCustodial :: bool
  wLabel :: "string option"
  encryptedPrivateKey :: "string option"
  wCreatedAt :: nat
  wUpdatedAt :: nat
  socialAccounts :: "SocialAccount list"

record wallet_service =
  initialized :: bool
  db :: "database option"
  encryptionKey :: string

text \<open>The guard \<open>if (!this.initialized || !this.db) throw\<close> that opens every method.\<close>

definition ready :: "wallet_service \<Rightarrow> error + database" where
  "ready W = (case db W of
                None \<Rightarrow> Inl NotInitialized
              | Some d \<Rightarrow> if initialized W then Inr d else Inl NotInitialized)"

definition toWalletInfo :: "wallet_row \<Rightarrow> SocialAccount list \<Rightarrow> WalletInfo" where
  "toWalletInfo r accounts =
     \<lparr> wid = rowid r, wPublicKey = public_key r, isCustodial = is_custodial r, wLabel = label r,
       encryptedPrivateKey = encrypted_private_key r, wCreatedAt = created_at r,
       wUpdatedAt = updated_at r, socialAccounts = accounts \<rparr>"

definition getWalletById :: "wallet_service \<Rightarrow> nat \<Rightarrow> error + WalletInfo" where
  "getWalletById W w =
     (case ready W of
        Inl e \<Rightarrow> Inl e
      | Inr d \<Rightarrow>
          (case select_wallet_by_id d w of
             Inl e \<Rightarrow> Inl e
           | Inr None \<Rightarrow> Inl (WalletIdNotFound w)
           | Inr (Some r) \<Rightarrow>
               (case select_social_by_wallet d w of
                  Inl e \<Rightarrow> Inl e
                | Inr accounts \<Rightarrow> Inr (toWalletInfo r accounts))))"

text \<open>
  \<open>createWallet\<close>. \<open>kp\<close> is the keypair drawn by \<open>Keypair.generate()\<close> and \<open>iv\<close> the bytes
  drawn by \<open>crypto.randomBytes(16)\<close> in this call. \<open>label || null\<close> stores no label for an
  absent or empty one. The two inserts are separate statements: when the second one fails
  the wallet row of the first stays.
\<close>

definition orNull :: "string option \<Rightarrow> string option" where
  "orNull l = (case l of None \<Rightarrow> None | Some s \<Rightarrow> if s = [] then None else Some s)"



text \<open>
  \<open>signWalletTransaction\<close>: the row is the one selected by the public key; an absent row,
  a \<open>NULL\<close> secret and an empty secret all take the \<open>throw\<close> of the guard.
\<close>

definition signWalletTransaction ::
  "libs \<Rightarrow> wallet_service \<Rightarrow> string \<Rightarrow> transaction \<Rightarrow> error + transaction" where
  "signWalletTransaction L W walletPublicKey tx =
     (case ready W of
        Inl e \<Rightarrow> Inl e
      | Inr d \<Rightarrow>
          (case select_wallet_by_public_key d walletPublicKey of
             Inl e \<Rightarrow> Inl e
           | Inr None \<Rightarrow> Inl (CannotSign walletPublicKey)
           | Inr (Some r) \<Rightarrow>
               (case encrypted_private_key r of
                  None \<Rightarrow> Inl (CannotSign walletPublicKey)
                | Some enc \<Rightarrow>
                    if enc = [] then Inl (CannotSign walletPublicKey)
                    else
                      (case decryptPrivateKey L (encryptionKey W) enc of
                         Inl e \<Rightarrow> Inl e
                       | Inr privateKey \<Rightarrow>
                           (case bs58_decode L privateKey of
                              Inl e \<Rightarrow> Inl e
                            | Inr secret \<Rightarrow>
                                (case fromSecretKey L secret of
                                   Inl e \<Rightarrow> Inl e
                                 | Inr keypair \<Rightarrow> sign L keypair tx))))))"

subsection \<open>Wallet service: read and list operations\<close>

text \<open>\<open>[...new Set(xs)]\<close>: the distinct elements in the order of their first occurrence.\<close>

definition uniq :: "'a list \<Rightarrow> 'a list" where
  "uniq xs = rev (remdups (rev xs))"

text \<open>A \<open>for ... of\<close> loop that pushes one result per element and stops at the first throw.\<close>

fun forEach :: "('a \<Rightarrow> error + 'b) \<Rightarrow> 'a list \<Rightarrow> error + 'b list" where
  "forEach f [] = Inr []"
| "forEach f (x # xs) =
     (case f x of
        Inl e \<Rightarrow> Inl e
      | Inr y \<Rightarrow> (case forEach f xs of Inl e \<Rightarrow> Inl e | Inr ys \<Rightarrow> Inr (y # ys)))"

text \<open>\<open>try { ... } catch (error) { console.error(...); return fallback; }\<close>\<close>

definition orElse :: "error + 'a \<Rightarrow> 'a \<Rightarrow> 'a" where
  "orElse r fallback = (case r of Inl e \<Rightarrow> fallback | Inr x \<Rightarrow> x)"

definition getWalletsForUser :: "wallet_service \<Rightarrow> string \<Rightarrow> error + WalletInfo list" where
  "getWalletsForUser W i =
     (case ready W of
        Inl e \<Rightarrow> Inl e
      | Inr d \<Rightarrow>
          Inr (orElse
                 (case select_social_by_platform_id d i of
                    Inl e \<Rightarrow> Inl e
                  | Inr accounts \<Rightarrow>
                      if accounts = [] then Inr []
                      else forEach (getWalletById W) (uniq (map walletId accounts)))
                 []))"

definition getWalletByPublicKey :: "wallet_service \<Rightarrow> string \<Rightarrow> error + WalletInfo option" where
  "getWalletByPublicKey W k =
     (case ready W of
        Inl e \<Rightarrow> Inl e
      | Inr d \<Rightarrow>
          Inr (orElse
                 (case select_wallet_by_public_key d k of
                    Inl e \<Rightarrow> Inl e
                  | Inr None \<Rightarrow> Inr None
                  | Inr (Some r) \<Rightarrow>
                      (case select_social_by_wallet d (rowid r) of
                         Inl e \<Rightarrow> Inl e
                       | Inr accounts \<Rightarrow> Inr (Some (toWalletInfo r accounts))))
                 None))"



text \<open>
  \<open>linkSocialAccountToWallet\<close> and \<open>unlinkSocialAccount\<close>; \<open>result.changes ? result.changes > 0
  : false\<close> is \<open>0 < changes\<close>.
\<close>

definition linkSocialAccountToWallet ::
  "string \<Rightarrow> string \<Rightarrow> string \<Rightarrow> wallet_service \<Rightarrow> (error + WalletInfo) \<times> wallet_service" where
  "linkSocialAccountToWallet p i walletPublicKey W =
     (case ready W of
        Inl e \<Rightarrow> (Inl e, W)
      | Inr d \<Rightarrow>
          (case select_wallet_by_public_key d walletPublicKey of
             Inl e \<Rightarrow> (Inl e, W)
           | Inr None \<Rightarrow> (Inl (WalletKeyNotFound walletPublicKey), W)
           | Inr (Some walletRecord) \<Rightarrow>
               (case select_social_by_identity d p i of
                  Inl e \<Rightarrow> (Inl e, W)
                | Inr (Some existingAccount) \<Rightarrow> (Inl (AlreadyLinked p i), W)
                | Inr None \<Rightarrow>
                    (case insert_social d p i (rowid walletRecord) of
                       Inl e \<Rightarrow> (Inl e, W)
                     | Inr d1 \<Rightarrow>
                         (getWalletById (W\<lparr>db := Some d1\<rparr>) (rowid walletRecord),
                          W\<lparr>db := Some d1\<rparr>)))))"

definition unlinkSocialAccount ::
  "string \<Rightarrow> string \<Rightarrow> wallet_service \<Rightarrow> (error + bool) \<times> wallet_service" where
  "unlinkSocialAccount p i W =
     (case ready W of
        Inl e \<Rightarrow> (Inl e, W)
      | Inr d \<Rightarrow>
          (case delete_social d p i of
             Inl e \<Rightarrow> (Inl e, W)
           | Inr (changes, d1) \<Rightarrow> (Inr (0 < changes), W\<lparr>db := Some d1\<rparr>)))"

subsection \<open>Token transfer instruction (\<open>sendTokenSecure\<close>, the instruction it builds)\<close>

text \<open>
  \<open>Math.pow(10, decimals)\<close>, \<open>Math.floor\<close>, \<open>BigInt\<close> and
  \<open>amountBuffer.writeBigUInt64LE\<close>, which throws a \<open>RangeError\<close> outside \<open>0 .. 2^64 - 1\<close> and
  otherwise writes the low byte first.
\<close>

definition pow10 :: "real \<Rightarrow> real" where
  "pow10 d = 10 powr d"

fun le_bytes :: "nat \<Rightarrow> nat \<Rightarrow> bytes" where
  "le_bytes 0 v = []"
| "le_bytes (Suc n) v = word_of_nat (v mod 256) # le_bytes n (v div 256)"

definition writeBigUInt64LE :: "int \<Rightarrow> error + bytes" where
  "writeBigUInt64LE v =
     (if v < 0 \<or> 2 ^ 64 \<le> v
      then Inl (RangeError ''The value of \"value\" is out of range.'')
      else Inr (le_bytes 8 (nat v)))"

definition TOKEN_PROGRAM_ID :: string where
  "TOKEN_PROGRAM_ID = ''TokenkegQfeZyiNwAJbNbGKPFXCWuBvf9Ss623VQ5DA''"

definition adjustedAmount :: "real \<Rightarrow> real \<Rightarrow> int" where
  "adjustedAmount amount decimals = \<lfloor>amount * pow10 decimals\<rfloor>"

definition transferInstruction :: "string \<Rightarrow> string \<Rightarrow> string \<Rightarrow> real \<Rightarrow> real \<Rightarrow> error + instruction" where
  "transferInstruction fromTokenAccount toTokenAccount fromPublicKey amount decimals =
     (case writeBigUInt64LE (adjustedAmount amount decimals) of
        Inl e \<Rightarrow> Inl e
      | Inr amountBuffer \<Rightarrow>
          Inr \<lparr> programId = TOKEN_PROGRAM_ID,
                keys = [\<lparr> pubkey = fromTokenAccount, isSigner = False, isWritable = True \<rparr>,
                        \<lparr> pubkey = toTokenAccount, isSigner = False, isWritable = True \<rparr>,
                        \<lparr> pubkey = fromPublicKey, isSigner = True, isWritable = False \<rparr>],
                data = 3 # amountBuffer \<rparr>)"



subsection \<open>Transaction records (\<open>Database.recordTransaction\<close>, \<open>Database.updateTransactionStatus\<close>)\<close>

datatype tx_status = pending | confirmed | failed

record TransactionRecord =
  tx_id :: "nat option"
  signature :: string
  sender_wallet_id :: nat
  recipient_wallet_id :: "nat option"
  recipient_address :: string
  amount :: real
  token_mint :: "string option"
  token_symbol :: "string option"
  status :: tx_status
  tx_created_at :: "string option"
  confirmed_at :: "string option"
  block_time :: "int option"
  fee :: "int option"

text \<open>
  The \<open>transactions\<close> table of the \<open>Database\<close> class, with \<open>signature UNIQUE\<close>. \<open>x || null\<close>
  stores \<open>NULL\<close> for an absent value, for \<open>0\<close> and for the empty string.
\<close>

record Database =
  connected :: bool
  transactions :: "TransactionRecord list"
  transaction_seq :: nat

definition numOrNull :: "int option \<Rightarrow> int option" where
  "numOrNull x = (case x of None \<Rightarrow> None | Some n \<Rightarrow> if n = 0 then None else Some n)"

definition natOrNull :: "nat option \<Rightarrow> nat option" where
  "natOrNull x = (case x of None \<Rightarrow> None | Some n \<Rightarrow> if n = 0 then None else Some n)"

definition recordTransaction ::
  "string \<Rightarrow> TransactionRecord \<Rightarrow> Database \<Rightarrow> (error + TransactionRecord) \<times> Database" where
  "recordTransaction now transactionData D =
     (if \<not> connected D
        then (Inl (FailedTo ''record transaction in database'' (PlainError ''Database not connected'')), D)
      else if \<exists>t \<in> set (transactions D). signature t = signature transactionData
        then (Inl (FailedTo ''record transaction in database''
                     (SqliteConstraint ''transactions.signature'')), D)
      else
        let n = nextId (transaction_seq D) (concat (map (\<lambda>t. case tx_id t of None \<Rightarrow> [] | Some i \<Rightarrow> [i]) (transactions D)));
            row = transactionData
                    \<lparr> tx_id := Some n,
                      recipient_wallet_id := natOrNull (recipient_wallet_id transactionData),
                      token_mint := orNull (token_mint transactionData),
                      token_symbol := orNull (token_symbol transactionData),
                      tx_created_at := Some now,
                      confirmed_at := orNull (confirmed_at transactionData),
                      block_time := numOrNull (block_time transactionData),
                      fee := numOrNull (fee transactionData) \<rparr>;
            createdTransaction =
              transactionData
                \<lparr> tx_id := (case tx_id transactionData of None \<Rightarrow> Some n | Some i \<Rightarrow> Some i),
                  tx_created_at := Some now \<rparr>
        in (Inr createdTransaction,
            D\<lparr> transactions := transactions D @ [row], transaction_seq := n \<rparr>))"

text \<open>
  The \<open>UPDATE\<close> of \<open>updateTransactionStatus\<close> on one row; \<open>now\<close> is \<open>new
  Date().toISOString()\<close>.
\<close>

definition setStatus ::
  "string \<Rightarrow> tx_status \<Rightarrow> int option \<Rightarrow> int option \<Rightarrow> TransactionRecord \<Rightarrow> TransactionRecord" where
  "setStatus now s blockTime fee' t =
     t\<lparr> status := s,
        confirmed_at := (if s = confirmed then Some now else None),
        block_time := numOrNull blockTime,
        fee := numOrNull fee' \<rparr>"

definition updateTransactionStatus ::
  "string \<Rightarrow> string \<Rightarrow> tx_status \<Rightarrow> int option \<Rightarrow> int option \<Rightarrow> Database
     \<Rightarrow> (error + bool) \<times> Database" where
  "updateTransactionStatus now sig s blockTime fee' D =
     (if \<not> connected D
        then (Inl (FailedTo ''update transaction status in database''
                     (PlainError ''Database not connected'')), D)
      else
        let changes = length (filter (\<lambda>t. signature t = sig) (transactions D));
            rows = map (\<lambda>t. if signature t = sig then setStatus now s blockTime fee' t else t)
                     (transactions D)
        in (Inr (0 < changes), D\<lparr> transactions := rows \<rparr>))"

text \<open>
  The route \<open>PATCH /:signature/status\<close>: the status in the request body must be one of the
  three names; any of them is passed on.
\<close>

datatype ApiError = ApiError nat string | Thrown error

definition parseStatus :: "string \<Rightarrow> tx_status option" where
  "parseStatus s =
     (if s = ''pending'' then Some pending
      else if s = ''confirmed'' then Some confirmed
      else if s = ''failed'' then Some failed
      else None)"

definition patchStatus ::
  "string \<Rightarrow> string \<Rightarrow> string \<Rightarrow> int option \<Rightarrow> int option \<Rightarrow> Database
     \<Rightarrow> (ApiError + string) \<times> Database" where
  "patchStatus now sig statusText blockTime fee' D =
     (if sig = [] then (Inl (ApiError 400 ''Transaction signature is required''), D)
      else
        (case parseStatus statusText of
           None \<Rightarrow> (Inl (ApiError 400 ''Valid status (pending, confirmed, failed) is required''), D)
         | Some s \<Rightarrow>
             (case updateTransactionStatus now sig s blockTime fee' D of
                (Inl e, D') \<Rightarrow> (Inl (Thrown e), D')
              | (Inr success, D') \<Rightarrow>
                  if \<not> success then (Inl (ApiError 404 ''Transaction not found''), D')
                  else (Inr (''Transaction status updated to '' @ statusText), D'))))"

definition example_record :: TransactionRecord where
  "example_record =
     \<lparr> tx_id = Some 1, signature = ''sig1'', sender_wallet_id = 1, recipient_wallet_id = None,
       recipient_address = ''0c0d'', amount = 1, token_mint = None, token_symbol = None,
       status = confirmed, tx_created_at = Some ''t0'', confirmed_at = Some ''t1'',
       block_time = Some 100, fee = Some 5000 \<rparr>"

definition example_Database :: Database where
  "example_Database = \<lparr> connected = True, transactions = [example_record], transaction_seq = 1 \<rparr>"

subsection \<open>Tool service: parameters, envelopes and effects\<close>

text \<open>
  The parameter bag is the request body: \<open>None\<close> when it is \<open>null\<close> or \<open>undefined\<close> (reading a
  property then throws a \<open>TypeError\<close>), otherwise the list of its own properties.
\<close>

type_synonym params = "(string \<times> jsval) list option"




text \<open>\<open>String(v)\<close>, as a template literal renders a value.\<close>

fun toStr :: "libs \<Rightarrow> jsval \<Rightarrow> string" where
  "toStr L JUndefined = ''undefined''"
| "toStr L JNull = ''null''"
| "toStr L (JBool b) = (if b then ''true'' else ''false'')"
| "toStr L (JNum r) = showNum L r"
| "toStr L (JStr s) = s"
| "toStr L JObject = ''[object Object]''"


definition nl :: string where
  "nl = [CHR 0x0A]"


record content_item =
  ctype :: string
  ctext :: "string option"

record ToolExecutionResult =
  content :: "content_item list"
  isError :: "bool option"





text \<open>
  The Ledger Gateway (\<open>Connection\<close>) is a record of answers; every request is appended to
  the log of the world, so that "no call was made" is a statement about the log.
\<close>

datatype token_filter = ByMint string | ByProgram string

record token_account =
  ta_pubkey :: string
  ta_mint :: string
  ta_uiAmount :: real
  ta_decimals :: real

record tx_response =
  meta_err :: bool
  meta_fee :: "real option"
  tr_blockTime :: "real option"

record account_response =
  ai_lamports :: real
  ai_owner :: string
  ai_executable :: bool

record epoch_response =
  ep_epoch :: real
  ep_blockHeight :: "real option"
  ep_absoluteSlot :: real

record ledger =
  getBalance :: "string \<Rightarrow> error + real"
  getParsedTokenAccountsByOwner :: "string \<Rightarrow> token_filter \<Rightarrow> error + token_account list"
  getTransaction :: "string \<Rightarrow> error + tx_response option"
  getAccountInfo :: "string \<Rightarrow> error + account_response option"
  getLatestBlockhash :: "error + string"
  sendRawTransaction :: "bytes \<Rightarrow> error + string"
  confirmTransaction :: "string \<Rightarrow> error + unit"
  getVersion :: "error + unit"
  getEpochInfo :: "error + epoch_response"

datatype rpc =
    GetBalance string
  | GetParsedTokenAccountsByOwner string token_filter
  | GetTransaction string
  | GetAccountInfo string
  | GetLatestBlockhash
  | SendRawTransaction bytes
  | ConfirmTransaction string
  | GetVersion
  | GetEpochInfo

text \<open>
  The world a tool runs in: the singleton wallet service, the database file that
  \<open>walletService.initialize()\<close> would open (\<open>None\<close> when it cannot be opened), and the log of
  requests made to the ledger.
\<close>

record world =
  walletService :: wallet_service
  sqliteFile :: "database option"
  rpc_log :: "rpc list"

type_synonym 'a io = "world \<Rightarrow> (error + 'a) \<times> world"

definition ret :: "'a \<Rightarrow> 'a io" where
  "ret x = (\<lambda>w. (Inr x, w))"

definition throw :: "error \<Rightarrow> 'a io" where
  "throw e = (\<lambda>w. (Inl e, w))"

definition bnd :: "'a io \<Rightarrow> ('a \<Rightarrow> 'b io) \<Rightarrow> 'b io" where
  "bnd m f = (\<lambda>w. case m w of (Inl e, w') \<Rightarrow> (Inl e, w') | (Inr x, w') \<Rightarrow> f x w')"

definition catch :: "'a io \<Rightarrow> (error \<Rightarrow> 'a io) \<Rightarrow> 'a io" where
  "catch m h = (\<lambda>w. case m w of (Inl e, w') \<Rightarrow> h e w' | (Inr x, w') \<Rightarrow> (Inr x, w'))"

definition lift :: "error + 'a \<Rightarrow> 'a io" where
  "lift r = (\<lambda>w. (r, w))"

definition call :: "rpc \<Rightarrow> error + 'a \<Rightarrow> 'a io" where
  "call request answer = (\<lambda>w. (answer, w\<lparr> rpc_log := rpc_log w @ [request] \<rparr>))"

definition fromWallet :: "(wallet_service \<Rightarrow> error + 'a) \<Rightarrow> 'a io" where
  "fromWallet f = (\<lambda>w. (f (walletService w), w))"

definition onWallet :: "(wallet_service \<Rightarrow> (error + 'a) \<times> wallet_service) \<Rightarrow> 'a io" where
  "onWallet f = (\<lambda>w. case f (walletService w) of (r, W') \<Rightarrow> (r, w\<lparr> walletService := W' \<rparr>))"


subsection \<open>Tool service: ledger reads\<close>

text \<open>
  \<open>getWalletBalance\<close>, \<open>getTokenBalances\<close>, \<open>getTransaction\<close> (here \<open>getTransactionInfo\<close>) and
  \<open>getAccountInfo\<close> (here \<open>getAccount\<close>) of \<open>ToolService\<close>; the two names differ from the
  source because the ledger has requests of the same names. The \<open>details\<close> of a transaction
  and the \<open>data\<close> of an account, which no caller reads, are left out.
\<close>

record tool_info =
  handler :: "(params \<Rightarrow> ToolExecutionResult io) option"

text \<open>
  The registry object found on the MCP server: \<open>entries\<close> is property lookup on it (a
  falsy or absent property is \<open>None\<close>), \<open>ownKeys\<close> is \<open>Object.keys\<close>. The four properties
  are the names the code tries, in its order.
\<close>

record registry =
  entries :: "string \<Rightarrow> tool_info option"
  ownKeys :: "string list"

record McpServer =
  toolRegistry_private :: "registry option"
  toolRegistry :: "registry option"
  tools :: "registry option"
  tools_private :: "registry option"

record ToolService =
  mcpServer :: "McpServer option"
  connection :: "ledger option"






subsection \<open>Tool service: transfers (\<open>sendSolSecure\<close>, \<open>sendTokenSecure\<close>)\<close>

text \<open>\<open>Math.round(amount * 1_000_000_000)\<close>.\<close>

definition toLamports :: "real \<Rightarrow> int" where
  "toLamports amt = \<lfloor>amt * 1000000000 + 1 / 2\<rfloor>"

definition newTransaction :: "instruction \<Rightarrow> string \<Rightarrow> string \<Rightarrow> transaction" where
  "newTransaction ix blockhash payer =
     \<lparr> instructions = [ix], recentBlockhash = Some blockhash, feePayer = Some payer,
       signatures = [] \<rparr>"

text \<open>Blockhash, signature by the wallet service, submission and confirmation.\<close>

definition signAndSend :: "libs \<Rightarrow> ledger \<Rightarrow> string \<Rightarrow> instruction \<Rightarrow> string io" where
  "signAndSend L c fromWalletPublicKey ix =
     bnd (call GetLatestBlockhash (getLatestBlockhash c)) (\<lambda>blockhash.
     bnd (fromWallet (\<lambda>W. signWalletTransaction L W fromWalletPublicKey
                              (newTransaction ix blockhash fromWalletPublicKey))) (\<lambda>signedTransaction.
     bnd (lift (serialize L signedTransaction)) (\<lambda>raw.
     bnd (call (SendRawTransaction raw) (sendRawTransaction c raw)) (\<lambda>sig.
     bnd (call (ConfirmTransaction sig) (confirmTransaction c sig)) (\<lambda>u.
     ret sig)))))"

definition sendSolSecure :: "libs \<Rightarrow> ToolService \<Rightarrow> string \<Rightarrow> string \<Rightarrow> real \<Rightarrow> string io" where
  "sendSolSecure L T fromWalletPublicKey toAddress amt =
     (case connection T of
        None \<Rightarrow> throw ConnectionNotInitialized
      | Some c \<Rightarrow>
          catch
            (if \<not> isPublicKey L fromWalletPublicKey then throw (InvalidPublicKey fromWalletPublicKey)
             else if \<not> isPublicKey L toAddress then throw (InvalidPublicKey toAddress)
             else if amt \<le> 0 then throw AmountNotPositive
             else
               bnd (lift (systemTransfer L fromWalletPublicKey toAddress (toLamports amt))) (\<lambda>ix.
               signAndSend L c fromWalletPublicKey ix))
            (\<lambda>e. throw (FailedToSendSol e)))"


subsection \<open>Tool service: dispatch (\<open>executeTool\<close>)\<close>







text \<open>
  \<open>sendSolToUser\<close> of the dispatcher. \<open>kp\<close> and \<open>iv\<close> are the keypair and the IV that
  \<open>createWallet\<close> draws if it is called.
\<close>

definition sendSolToUser_text :: "libs \<Rightarrow> jsval \<Rightarrow> jsval \<Rightarrow> jsval \<Rightarrow> jsval \<Rightarrow> real \<Rightarrow> bool \<Rightarrow> string \<Rightarrow> string" where
  "sendSolToUser_text L sp si rp ri amt walletCreated sig =
     ''Successfully sent '' @ showNum L amt @ '' SOL from '' @ toStr L sp @ '':'' @ toStr L si
       @ '' to '' @ toStr L rp @ '':'' @ toStr L ri @ ''.'' @ nl
     @ (if walletCreated
        then ''A new wallet was created for '' @ toStr L rp @ '':'' @ toStr L ri @ ''.'' @ nl
        else [])
     @ ''Transaction signature: '' @ sig"







subsection \<open>Stand-in libraries for concrete evaluation\<close>

text \<open>
  Used only to run the model on concrete inputs: a toy cipher (every byte XORed with the
  first IV byte), hexadecimal in place of base 58, addresses that are non-empty strings of
  letters and digits, and a signature that records the signer.
\<close>

definition alnum :: "char \<Rightarrow> bool" where
  "alnum c = (let n = (of_char c :: nat) in
                (48 \<le> n \<and> n \<le> 57) \<or> (65 \<le> n \<and> n \<le> 90) \<or> (97 \<le> n \<and> n \<le> 122))"

definition stub_libs :: libs where
  "stub_libs =
     \<lparr> aes_encrypt = (\<lambda>k iv p. map (\<lambda>b. xor b (hd iv)) p),
       aes_decrypt = (\<lambda>k iv c. Inr (map (\<lambda>b. xor b (hd iv)) c)),
       bs58_encode = toHex,
       bs58_decode = (\<lambda>s. Inr (fromHex s)),
       isPublicKey = (\<lambda>s. s \<noteq> [] \<and> list_all alnum s),
       fromSecretKey = (\<lambda>sk. if sk = [] then Inl (LibFailure ''bad secret key size'')
                             else Inr \<lparr> publicKey = toHex sk, secretKey = sk \<rparr>),
       systemTransfer = (\<lambda>f t n. if n < 0 then Inl (RangeError ''out of range'')
                                 else Inr \<lparr> programId = ''11111111111111111111111111111111'',
                                           keys = [\<lparr> pubkey = f, isSigner = True, isWritable = True \<rparr>,
                                                   \<lparr> pubkey = t, isSigner = False, isWritable = True \<rparr>],
                                           data = [2, 0, 0, 0, word_of_int n] \<rparr>),
       sign = (\<lambda>kp tx. Inr (tx\<lparr> signatures := [(publicKey kp, secretKey kp)] \<rparr>)),
       serialize = (\<lambda>tx. if signatures tx = [] then Inl (LibFailure ''Signature verification failed'')
                          else Inr (concat (map data (instructions tx)))),
       showNum = (\<lambda>r. ''n''),
       sqlBind = (\<lambda>v. ''?''),
       stringify = (\<lambda>v. ''{}'') \<rparr>"

subsection \<open>Example states\<close>

definition example_secret :: string where
  "example_secret = ''0123456789abcdef0123456789abcdef''"







text \<open>The service after \<open>createWallet('twitter', 'alice')\<close> on the empty database.\<close>

definition db1 :: database where
  "db1 = \<lparr> wallets =
             [\<lparr> rowid = 1, public_key = ''0a0b'', is_custodial = True, label = None,
                encrypted_private_key = Some ''07070707070707070707070707070707:37663765'',
                created_at = 0, updated_at = 0 \<rparr>],
           social_accounts =
             [\<lparr> sid = 1, platform = ''twitter'', platformId = ''alice'', walletId = 1,
                createdAt = 0 \<rparr>],
           wallet_seq = 1, social_seq = 1, clock = 0, fault = (\<lambda>q. False) \<rparr>"

definition service1 :: wallet_service where
  "service1 = \<lparr> initialized = True, db = Some db1, encryptionKey = example_secret \<rparr>"

definition tx0 :: transaction where
  "tx0 = \<lparr> instructions = [], recentBlockhash = None, feePayer = None, signatures = [] \<rparr>"

definition example_ledger :: ledger where
  "example_ledger =
     \<lparr> getBalance = (\<lambda>a. Inr 2000000000),
       getParsedTokenAccountsByOwner = (\<lambda>a f. Inr []),
       getTransaction = (\<lambda>s. Inr None),
       getAccountInfo = (\<lambda>a. Inr None),
       getLatestBlockhash = Inr ''blockhash1'',
       sendRawTransaction = (\<lambda>raw. Inr ''signature1''),
       confirmTransaction = (\<lambda>s. Inr ()),
       getVersion = Inr (),
       getEpochInfo = Inr \<lparr> ep_epoch = 1, ep_blockHeight = None, ep_absoluteSlot = 2 \<rparr> \<rparr>"

definition example_tools :: ToolService where
  "example_tools =
     \<lparr> mcpServer = Some \<lparr> toolRegistry_private = None, toolRegistry = None, tools = None,
                          tools_private = None \<rparr>,
       connection = Some example_ledger \<rparr>"

definition world1 :: world where
  "world1 = \<lparr> walletService = service1, sqliteFile = None, rpc_log = [] \<rparr>"












section \<open>Properties\<close>

subsection \<open>Hexadecimal round trip\<close>

lemma hexval_hexdigit: "n < 16 \<Longrightarrow> hexval (hexdigit n) = Some n"
proof -
  assume "n < 16"
  then have "n \<in> set [0..<16]" by simp
  then show ?thesis
    unfolding upt_conv_Cons_Cons
    by (simp add: eval_nat_numeral) (auto simp: hexval_def hexdigit_def)
qed

lemma hexdigit_not_colon_aux: "m < 16 \<Longrightarrow> ''0123456789abcdef'' ! m \<noteq> CHR '':''"
proof -
  assume "m < 16"
  then have "m \<in> set [0..<16]" by simp
  then show ?thesis
    unfolding upt_conv_Cons_Cons
    by (simp add: eval_nat_numeral) auto
qed

lemma hexdigit_not_colon: "hexdigit n \<noteq> CHR '':''"
  unfolding hexdigit_def by (rule hexdigit_not_colon_aux) simp

lemma toHex_chars: "c \<in> set (toHex bs) \<Longrightarrow> \<exists>n. c = hexdigit n"
  by (induction bs) (auto simp: toHex_def)

lemma colon_notin_toHex: "CHR '':'' \<notin> set (toHex bs)"
  using toHex_chars hexdigit_not_colon by metis

lemma split_no_sep: "c \<notin> set xs \<Longrightarrow> split c xs = [xs]"
  by (induction xs) auto

lemma split_append: "c \<notin> set xs \<Longrightarrow> split c (xs @ c # ys) = xs # split c ys"
  by (induction xs) auto

lemma length_toHex: "length (toHex bs) = 2 * length bs"
  by (induction bs) (auto simp: toHex_def)

lemma fromHex_toHex: "fromHex (toHex bs) = bs"
proof (induction bs)
  case Nil
  then show ?case by (simp add: toHex_def)
next
  case (Cons b bs)
  have "unat b < 256" using unsigned_less [of b, where 'a=nat] by simp
  then have "unat b div 16 < 16" by simp
  then show ?case using Cons
    by (simp add: toHex_def hexval_hexdigit)
qed

lemma utf8_roundtrip: "utf8_decode (utf8_encode s) = s"
proof (induction s)
  case Nil
  then show ?case by (simp add: utf8_decode_def utf8_encode_def)
next
  case (Cons c s)
  have "(of_char c :: nat) < 256" by simp
  then have "unat (word_of_nat (of_char c) :: 8 word) = of_char c"
    by (simp add: unat_of_nat)
  then show ?case using Cons by (simp add: utf8_decode_def utf8_encode_def)
qed

lemma split_envelope: "split CHR '':'' (toHex iv @ '':'' @ toHex ct) = [toHex iv, toHex ct]"
  by (simp add: split_append split_no_sep colon_notin_toHex)

subsection \<open>Cipher\<close>

text \<open>
  C2. With a block cipher whose decryption inverts its encryption, a key of the configured
  size (the first 32 characters of the configured secret are 32 bytes) and a 16-byte IV:
  the envelope is the hexadecimal IV, a colon and the hexadecimal ciphertext in one string;
  decrypting the envelope with the same key gives the plaintext back; and two encryptions
  of the same plaintext that drew different IVs give different envelopes.
\<close>

theorem cipher_roundtrip:
  assumes aes: "\<forall>k v p. length k = 32 \<longrightarrow> length v = 16 \<longrightarrow>
                  aes_decrypt L k v (aes_encrypt L k v p) = Inr p"
    and key: "length (cipherKey secret) = 32"
    and iv: "length iv = 16" and iv': "length iv' = 16"
  shows "encryptPrivateKey L secret iv s =
           Inr (toHex iv @ '':'' @ toHex (aes_encrypt L (cipherKey secret) iv (utf8_encode s)))
       \<and> (\<forall>env. encryptPrivateKey L secret iv s = Inr env \<longrightarrow>
              decryptPrivateKey L secret env = Inr s)
       \<and> (iv \<noteq> iv' \<longrightarrow> encryptPrivateKey L secret iv s \<noteq> encryptPrivateKey L secret iv' s)"
proof (intro conjI allI impI)
  let ?k = "cipherKey secret"
  let ?ct = "aes_encrypt L ?k iv (utf8_encode s)"
  show enc: "encryptPrivateKey L secret iv s = Inr (toHex iv @ '':'' @ toHex ?ct)"
    using key iv by (simp add: encryptPrivateKey_def)
  {
    fix env
    assume "encryptPrivateKey L secret iv s = Inr env"
    with enc have env: "env = toHex iv @ '':'' @ toHex ?ct" by simp
    have "aes_decrypt L ?k iv ?ct = Inr (utf8_encode s)"
      using aes key iv by blast
    then show "decryptPrivateKey L secret env = Inr s"
      unfolding decryptPrivateKey_def env split_envelope
      using key iv by (simp add: fromHex_toHex utf8_roundtrip)
  }
  {
    assume ne: "iv \<noteq> iv'"
    have len: "length (toHex iv) = length (toHex iv')"
      using iv iv' by (simp add: length_toHex)
    have "toHex iv \<noteq> toHex iv'"
      using ne fromHex_toHex by metis
    then show "encryptPrivateKey L secret iv s \<noteq> encryptPrivateKey L secret iv' s"
      using key iv iv' len by (simp add: encryptPrivateKey_def)
  }
qed

lemma stub_cipher_inverse:
  "aes_decrypt stub_libs k v (aes_encrypt stub_libs k v p) = Inr p"
  by (simp add: stub_libs_def comp_def xor.assoc)

lemma stub_key_length: "length (cipherKey ''0123456789abcdef0123456789abcdef'') = 32"
  by (simp add: cipherKey_def utf8_encode_def)

theorem cipher_roundtrip_witness:
  "decryptPrivateKey stub_libs ''0123456789abcdef0123456789abcdef''
     (toHex (replicate 16 7) @ '':'' @
      toHex (aes_encrypt stub_libs (cipherKey ''0123456789abcdef0123456789abcdef'')
               (replicate 16 7) (utf8_encode ''5Kd3''))) = Inr ''5Kd3''
   \<and> encryptPrivateKey stub_libs ''0123456789abcdef0123456789abcdef'' (replicate 16 7) ''5Kd3''
     \<noteq> encryptPrivateKey stub_libs ''0123456789abcdef0123456789abcdef'' (replicate 16 9) ''5Kd3''"
proof -
  have a: "\<forall>k v p. length k = 32 \<longrightarrow> length v = 16 \<longrightarrow>
             aes_decrypt stub_libs k v (aes_encrypt stub_libs k v p) = Inr p"
    by (simp add: stub_cipher_inverse)
  have ne: "replicate 16 (7 :: 8 word) \<noteq> replicate 16 9"
    by (simp add: eval_nat_numeral)
  have l1: "length (replicate 16 (7 :: 8 word)) = 16"
    and l2: "length (replicate 16 (9 :: 8 word)) = 16"
    by simp_all
  note T = cipher_roundtrip [OF a stub_key_length l1 l2, of "''5Kd3''"]
  note T1 = T [THEN conjunct1]
  note T2 = T [THEN conjunct2, THEN conjunct1, rule_format, OF T1]
  note T3 = T [THEN conjunct2, THEN conjunct2, rule_format, OF ne]
  from T2 T3 show ?thesis by (rule conjI)
qed

subsection \<open>Wallet service\<close>

lemma ready_iff: "ready W = Inr d \<longleftrightarrow> initialized W \<and> db W = Some d"
  by (auto simp: ready_def split: option.splits)

lemma find_Some_set: "find P xs = Some x \<Longrightarrow> x \<in> set xs \<and> P x"
  by (induction xs) (auto split: if_splits)







text \<open>
  C3. On an initialised service with a readable table: signing fails with the "wallet not
  found or no private key available" error when no row has the public key, and when the
  row selected by the public key has no (or an empty) encrypted secret; and whenever
  signing succeeds, the signed transaction is the library's \<open>sign\<close> applied with the
  keypair rebuilt from the decrypted secret of the row selected by that public key.
\<close>

theorem signWalletTransaction_own_secret:
  assumes init: "initialized W" and db: "db W = Some d"
    and ok: "\<not> fault d (SelectWalletByPublicKey k)"
  shows "((\<forall>r\<in>set (wallets d). public_key r \<noteq> k) \<longrightarrow>
            signWalletTransaction L W k tx = Inl (CannotSign k))
       \<and> (\<forall>r. find (\<lambda>r. public_key r = k) (wallets d) = Some r \<and>
              (encrypted_private_key r = None \<or> encrypted_private_key r = Some []) \<longrightarrow>
            signWalletTransaction L W k tx = Inl (CannotSign k))
       \<and> (\<forall>signed. signWalletTransaction L W k tx = Inr signed \<longrightarrow>
            (\<exists>r enc privateKey secret kp.
               find (\<lambda>r. public_key r = k) (wallets d) = Some r \<and> public_key r = k \<and>
               encrypted_private_key r = Some enc \<and>
               decryptPrivateKey L (encryptionKey W) enc = Inr privateKey \<and>
               bs58_decode L privateKey = Inr secret \<and>
               fromSecretKey L secret = Inr kp \<and>
               sign L kp tx = Inr signed))"
proof (intro conjI allI impI)
  have r: "ready W = Inr d" using init db by (simp add: ready_iff)
  have sel: "select_wallet_by_public_key d k = Inr (find (\<lambda>r. public_key r = k) (wallets d))"
    using ok by (simp add: select_wallet_by_public_key_def)
  {
    assume "\<forall>r\<in>set (wallets d). public_key r \<noteq> k"
    then have "find (\<lambda>r. public_key r = k) (wallets d) = None"
      by (auto simp: find_None_iff)
    then show "signWalletTransaction L W k tx = Inl (CannotSign k)"
      using r sel by (simp add: signWalletTransaction_def)
  }
  {
    fix row
    assume "find (\<lambda>r. public_key r = k) (wallets d) = Some row \<and>
            (encrypted_private_key row = None \<or> encrypted_private_key row = Some [])"
    then show "signWalletTransaction L W k tx = Inl (CannotSign k)"
      using r sel by (auto simp: signWalletTransaction_def)
  }
  {
    fix signed
    assume s: "signWalletTransaction L W k tx = Inr signed"
    then obtain row where row: "find (\<lambda>r. public_key r = k) (wallets d) = Some row"
      using r sel by (auto simp: signWalletTransaction_def split: option.splits)
    then have pk: "public_key row = k" using find_Some_set by fastforce
    from s row r sel pk
    show "\<exists>r enc privateKey secret kp.
               find (\<lambda>r. public_key r = k) (wallets d) = Some r \<and> public_key r = k \<and>
               encrypted_private_key r = Some enc \<and>
               decryptPrivateKey L (encryptionKey W) enc = Inr privateKey \<and>
               bs58_decode L privateKey = Inr secret \<and>
               fromSecretKey L secret = Inr kp \<and>
               sign L kp tx = Inr signed"
      by (auto simp: signWalletTransaction_def split: option.splits sum.splits if_splits)
  }
qed

theorem signWalletTransaction_own_secret_witness:
  "signWalletTransaction stub_libs service1 ''0c0d'' tx0 = Inl (CannotSign ''0c0d'')"
proof -
  have i: "initialized service1" and d: "db service1 = Some db1"
    and f: "\<not> fault db1 (SelectWalletByPublicKey ''0c0d'')"
    and n: "\<forall>r\<in>set (wallets db1). public_key r \<noteq> ''0c0d''"
    by (simp_all add: service1_def db1_def)
  from signWalletTransaction_own_secret [OF i d f, of stub_libs tx0, THEN conjunct1, THEN mp, OF n]
  show ?thesis .
qed

lemma signWalletTransaction_service1:
  "signWalletTransaction stub_libs service1 ''0a0b'' tx0 =
     Inr (tx0\<lparr> signatures := [(''0a0b'', [10, 11])] \<rparr>)"
  by code_simp



lemma reads_on_service1:
  "map wPublicKey (orElse (getWalletsForUser service1 ''alice'') []) = [''0a0b'']
   \<and> map_option wPublicKey (orElse (getWalletByPublicKey service1 ''0a0b'') None) = Some ''0a0b''"
  by code_simp

subsection \<open>Token transfer instruction\<close>



lemma le_bytes_8:
  "le_bytes 8 v =
     [word_of_nat (v mod 256), word_of_nat (v div 256 mod 256),
      word_of_nat (v div 256 div 256 mod 256),
      word_of_nat (v div 256 div 256 div 256 mod 256),
      word_of_nat (v div 256 div 256 div 256 div 256 mod 256),
      word_of_nat (v div 256 div 256 div 256 div 256 div 256 mod 256),
      word_of_nat (v div 256 div 256 div 256 div 256 div 256 div 256 mod 256),
      word_of_nat (v div 256 div 256 div 256 div 256 div 256 div 256 div 256 mod 256)]"
proof -
  have e: "(8 :: nat) = Suc (Suc (Suc (Suc (Suc (Suc (Suc (Suc 0)))))))" by simp
  show ?thesis by (simp only: e le_bytes.simps)
qed

lemma pow10_nat: "pow10 (real n) = 10 ^ n"
  by (simp add: pow10_def powr_realpow)

lemma adjusted_example: "adjustedAmount (3 / 2) 6 = 1500000"
  by (simp add: adjustedAmount_def pow10_def)



lemma transferInstruction_example:
  "transferInstruction ''srcAcct'' ''dstAcct'' ''owner'' (3 / 2) 6 =
     Inr \<lparr> programId = TOKEN_PROGRAM_ID,
           keys = [\<lparr> pubkey = ''srcAcct'', isSigner = False, isWritable = True \<rparr>,
                   \<lparr> pubkey = ''dstAcct'', isSigner = False, isWritable = True \<rparr>,
                   \<lparr> pubkey = ''owner'', isSigner = True, isWritable = False \<rparr>],
           data = [3, 0x60, 0xE3, 0x16, 0, 0, 0, 0, 0] \<rparr>"
  by (simp add: transferInstruction_def adjusted_example writeBigUInt64LE_def le_bytes_8)

subsection \<open>Transaction records\<close>

lemma recordTransaction_keeps:
  "recordTransaction now transactionData D = (r, D') \<Longrightarrow>
     take (length (transactions D)) (transactions D') = transactions D"
  by (auto simp: recordTransaction_def Let_def split: if_splits)

text \<open>
  C9, as the code has it. \<open>updateTransactionStatus\<close> on a connected database sets the status
  of the records with the given signature to the requested one, whatever their current
  status, and reports whether there was such a record; on those records it changes
  \<open>status\<close>, \<open>confirmed_at\<close>, \<open>block_time\<close> and \<open>fee\<close> and no other field, and it leaves
  every other record as it was. The only other writer of the table, \<open>recordTransaction\<close>,
  leaves every existing record as it was.
\<close>

theorem updateTransactionStatus_effect:
  assumes c: "connected D"
  shows "(\<exists>D'. updateTransactionStatus now sig s bt f D =
               (Inr (\<exists>t\<in>set (transactions D). signature t = sig), D')
       \<and> connected D' \<and> transaction_seq D' = transaction_seq D
       \<and> length (transactions D') = length (transactions D)
       \<and> (\<forall>j < length (transactions D).
            (signature (transactions D ! j) \<noteq> sig \<longrightarrow> transactions D' ! j = transactions D ! j)
          \<and> (signature (transactions D ! j) = sig \<longrightarrow>
               transactions D' ! j =
                 (transactions D ! j)
                   \<lparr> status := s,
                     confirmed_at := (if s = confirmed then Some now else None),
                     block_time := numOrNull bt,
                     fee := numOrNull f \<rparr>)))
       \<and> (\<forall>transactionData r D'.
            recordTransaction now transactionData D = (r, D') \<longrightarrow>
            take (length (transactions D)) (transactions D') = transactions D)"
proof -
  have "(0 < length (filter (\<lambda>t. signature t = sig) (transactions D)))
          = (\<exists>t\<in>set (transactions D). signature t = sig)"
    by (simp add: filter_empty_conv)
  then have "\<exists>D'. updateTransactionStatus now sig s bt f D =
               (Inr (\<exists>t\<in>set (transactions D). signature t = sig), D')
       \<and> connected D' \<and> transaction_seq D' = transaction_seq D
       \<and> length (transactions D') = length (transactions D)
       \<and> (\<forall>j < length (transactions D).
            (signature (transactions D ! j) \<noteq> sig \<longrightarrow> transactions D' ! j = transactions D ! j)
          \<and> (signature (transactions D ! j) = sig \<longrightarrow>
               transactions D' ! j =
                 (transactions D ! j)
                   \<lparr> status := s,
                     confirmed_at := (if s = confirmed then Some now else None),
                     block_time := numOrNull bt,
                     fee := numOrNull f \<rparr>))"
    using c by (simp add: updateTransactionStatus_def Let_def setStatus_def)
  then show ?thesis using recordTransaction_keeps by blast
qed

theorem updateTransactionStatus_effect_witness:
  "\<exists>D'. updateTransactionStatus ''t2'' ''sig1'' failed (Some 0) None example_Database = (Inr True, D')
       \<and> transactions D' =
           [example_record\<lparr> status := failed, confirmed_at := None, block_time := None, fee := None \<rparr>]"
proof -
  have c: "connected example_Database" by (simp add: example_Database_def)
  from updateTransactionStatus_effect [OF c, of "''t2''" "''sig1''" failed "Some 0" None,
         THEN conjunct1]
  obtain D' where
    1: "updateTransactionStatus ''t2'' ''sig1'' failed (Some 0) None example_Database =
          (Inr (\<exists>t\<in>set (transactions example_Database). signature t = ''sig1''), D')"
    and 2: "length (transactions D') = length (transactions example_Database)"
    and 3: "\<forall>j < length (transactions example_Database).
            (signature (transactions example_Database ! j) \<noteq> ''sig1'' \<longrightarrow>
               transactions D' ! j = transactions example_Database ! j)
          \<and> (signature (transactions example_Database ! j) = ''sig1'' \<longrightarrow>
               transactions D' ! j =
                 (transactions example_Database ! j)
                   \<lparr> status := failed,
                     confirmed_at := (if failed = confirmed then Some ''t2'' else None),
                     block_time := numOrNull (Some 0),
                     fee := numOrNull None \<rparr>)"
    by blast
  from 2 have l: "length (transactions D') = 1" by (simp add: example_Database_def)
  from 3 have "transactions D' ! 0 =
      example_record\<lparr> status := failed, confirmed_at := None, block_time := None, fee := None \<rparr>"
    by (simp add: example_Database_def example_record_def numOrNull_def)
  with l have "transactions D' =
      [example_record\<lparr> status := failed, confirmed_at := None, block_time := None, fee := None \<rparr>]"
    by (cases "transactions D'") auto
  moreover from 1 have "updateTransactionStatus ''t2'' ''sig1'' failed (Some 0) None example_Database
      = (Inr True, D')"
    by (simp add: example_Database_def example_record_def)
  ultimately show ?thesis by blast
qed

text \<open>
  The claim's transition rule does not hold: nothing guards the current status. A
  confirmed record goes back to \<open>pending\<close> (losing \<open>confirmed_at\<close>) or on to \<open>failed\<close>, and
  the route accepts both requests.
\<close>

theorem status_transition_counterexample:
  "map status (transactions example_Database) = [confirmed]
   \<and> map status (transactions (snd (updateTransactionStatus ''t2'' ''sig1'' pending None None
                                       example_Database))) = [pending]
   \<and> map confirmed_at (transactions (snd (updateTransactionStatus ''t2'' ''sig1'' pending None None
                                       example_Database))) = [None]
   \<and> fst (patchStatus ''t2'' ''sig1'' ''pending'' None None example_Database)
       = Inr ''Transaction status updated to pending''
   \<and> map status (transactions (snd (patchStatus ''t2'' ''sig1'' ''failed'' None None
                                       example_Database))) = [failed]"
  by (simp add: updateTransactionStatus_def patchStatus_def parseStatus_def setStatus_def
        example_Database_def example_record_def Let_def)

subsection \<open>Tool service\<close>

lemmas io_defs = ret_def throw_def bnd_def catch_def lift_def call_def fromWallet_def onWallet_def

text \<open>
  C7, as the code has it. For an amount that is zero or negative \<open>sendSolSecure\<close> fails and
  leaves the world as it was: nothing is asked of the ledger (no blockhash, no submission,
  no confirmation). The error is the invalid-amount error ("Amount must be greater than 0",
  inside "Failed to send SOL") when the connection exists and both addresses are
  well-formed; a malformed address is reported first, and a missing connection before that.
\<close>

theorem sendSolSecure_nonpositive:
  assumes a: "amt \<le> 0"
  shows "(\<exists>e. sendSolSecure L T sender recipient amt w = (Inl e, w))
       \<and> (connection T \<noteq> None \<and> isPublicKey L sender \<and> isPublicKey L recipient \<longrightarrow>
            sendSolSecure L T sender recipient amt w = (Inl (FailedToSendSol AmountNotPositive), w))
       \<and> (connection T \<noteq> None \<and> (\<not> isPublicKey L sender \<or> \<not> isPublicKey L recipient) \<longrightarrow>
            (\<exists>k. sendSolSecure L T sender recipient amt w = (Inl (FailedToSendSol (InvalidPublicKey k)), w)))
       \<and> (connection T = None \<longrightarrow>
            sendSolSecure L T sender recipient amt w = (Inl ConnectionNotInitialized, w))"
  using a by (cases "connection T") (auto simp: sendSolSecure_def io_defs)

theorem sendSolSecure_nonpositive_witness:
  "sendSolSecure stub_libs example_tools ''0a0b'' ''0c0d'' (- 1) world1
     = (Inl (FailedToSendSol AmountNotPositive), world1)"
proof -
  have a: "(- 1 :: real) \<le> 0" by simp
  have c: "connection example_tools \<noteq> None \<and> isPublicKey stub_libs ''0a0b''
           \<and> isPublicKey stub_libs ''0c0d''"
    by (simp add: example_tools_def stub_libs_def alnum_def)
  from sendSolSecure_nonpositive [OF a, of stub_libs example_tools "''0a0b''" "''0c0d''" world1,
         THEN conjunct2, THEN conjunct1, THEN mp, OF c]
  show ?thesis .
qed

text \<open>
  The claim's error does not hold for every such amount: the addresses are validated before
  the amount, so an amount of 0 sent to a malformed address fails with the address error.
\<close>

theorem sendSolSecure_amount_order_counterexample:
  "sendSolSecure stub_libs example_tools ''0a0b'' ''not-an-address'' 0 world1
     = (Inl (FailedToSendSol (InvalidPublicKey ''not-an-address'')), world1)
   \<and> fst (sendSolSecure stub_libs example_tools ''0a0b'' ''not-an-address'' 0 world1)
     \<noteq> Inl (FailedToSendSol AmountNotPositive)"
  by (simp add: sendSolSecure_def io_defs example_tools_def stub_libs_def alnum_def)























lemma sendSolToUser_text_example:
  "sendSolToUser_text stub_libs (JStr ''twitter'') (JStr ''alice'') (JStr ''twitter'') (JStr ''bob'')
     1 True ''signature1'' =
     ''Successfully sent n SOL from twitter:alice to twitter:bob.'' @ nl
     @ ''A new wallet was created for twitter:bob.'' @ nl
     @ ''Transaction signature: signature1''"
  by (simp add: sendSolToUser_text_def stub_libs_def)


end
